theory Spec2Isabelle
  imports Complex_Main "HOL-Library.Sublist"
begin

section \<open>Python values used by the scanner and the inferencer\<close>

text \<open>
  The inference engine (\<^verbatim>\<open>autoenvforge/inferencer.py\<close>) and the repository scanner
  (\<^verbatim>\<open>autoenvforge/scanner.py\<close>) are embedded as HOL functions. Exceptions are values of
  \<open>py_error\<close> on the left of a sum. A Python \<^verbatim>\<open>dict\<close> is an association list in insertion
  order with distinct keys: \<open>dict_set\<close> overwrites the value of a key that is present and
  appends a new key at the end, as assignment to \<^verbatim>\<open>d[k]\<close> does. Strings are byte strings.
\<close>

datatype py_error =
  ValueError | IndexError | KeyError | TypeError | AttributeError | JSONDecodeError | RetryError

type_synonym 'v dict = "(string \<times> 'v) list"

fun dict_get :: "'v dict \<Rightarrow> string \<Rightarrow> 'v option" where
  "dict_get [] k = None"
| "dict_get ((k', v) # d) k = (if k' = k then Some v else dict_get d k)"

fun dict_set :: "'v dict \<Rightarrow> string \<Rightarrow> 'v \<Rightarrow> 'v dict" where
  "dict_set [] k v = [(k, v)]"
| "dict_set ((k', v') # d) k v = (if k' = k then (k', v) # d else (k', v') # dict_set d k v)"

text \<open>\<^verbatim>\<open>d.get(k, default)\<close>, \<^verbatim>\<open>d.update(other)\<close> and \<^verbatim>\<open>d.setdefault(k, v)\<close>.\<close>

definition dict_get_default :: "'v dict \<Rightarrow> string \<Rightarrow> 'v \<Rightarrow> 'v" where
  "dict_get_default d k dflt = (case dict_get d k of None \<Rightarrow> dflt | Some v \<Rightarrow> v)"

fun dict_update :: "'v dict \<Rightarrow> 'v dict \<Rightarrow> 'v dict" where
  "dict_update d [] = d"
| "dict_update d ((k, v) # kvs) = dict_update (dict_set d k v) kvs"

definition setdefault :: "'v dict \<Rightarrow> string \<Rightarrow> 'v \<Rightarrow> 'v dict" where
  "setdefault d k v = (case dict_get d k of None \<Rightarrow> dict_set d k v | Some _ \<Rightarrow> d)"

text \<open>
  A version is a string everywhere except after \<^verbatim>\<open>_get_latest_version\<close>, which can return
  \<^verbatim>\<open>None\<close>.
\<close>

datatype pyval = PyStr string | PyNone

definition py_str :: "pyval \<Rightarrow> string" where
  "py_str v = (case v of PyStr s \<Rightarrow> s | PyNone \<Rightarrow> ''None'')"

subsection \<open>String methods\<close>

text \<open>
  \<^verbatim>\<open>str.strip()\<close> removes the ASCII whitespace characters (codes 9 to 13 and 28 to 32) from
  both ends; \<^verbatim>\<open>str.lstrip(chars)\<close> removes leading characters that occur in \<open>chars\<close>.
\<close>

definition is_space :: "char \<Rightarrow> bool" where
  "is_space c = (let n = (of_char c :: nat) in (9 \<le> n \<and> n \<le> 13) \<or> (28 \<le> n \<and> n \<le> 32))"

definition lstrip :: "string \<Rightarrow> string" where
  "lstrip s = dropWhile is_space s"

definition strip :: "string \<Rightarrow> string" where
  "strip s = rev (lstrip (rev (lstrip s)))"

definition lstrip_chars :: "string \<Rightarrow> string \<Rightarrow> string" where
  "lstrip_chars chars s = dropWhile (\<lambda>c. c \<in> set chars) s"

definition endswith :: "string \<Rightarrow> string \<Rightarrow> bool" where
  "endswith s suf = suffix suf s"

text \<open>\<^verbatim>\<open>sub in s\<close> for strings.\<close>

fun py_in :: "string \<Rightarrow> string \<Rightarrow> bool" where
  "py_in sub [] = (sub = [])"
| "py_in sub (c # cs) = (prefix sub (c # cs) \<or> py_in sub cs)"

text \<open>
  \<^verbatim>\<open>s.split(sep)\<close> cuts at the non-overlapping occurrences of \<open>sep\<close>, scanning from the
  left, and \<^verbatim>\<open>s.count(sep)\<close> counts them. Every call site passes a non-empty literal
  separator (Python raises on an empty one; the functions below then return the string
  whole and zero).
\<close>

function py_split :: "string \<Rightarrow> string \<Rightarrow> string list" where
  "py_split sep s =
     (if sep = [] \<or> s = [] then [s]
      else if prefix sep s then [] # py_split sep (drop (length sep) s)
      else (case py_split sep (tl s) of
              [] \<Rightarrow> [[hd s]]
            | p # ps \<Rightarrow> (hd s # p) # ps))"
  by pat_completeness auto
termination
  by (relation "measure (\<lambda>(sep, s). length s)") (auto simp: neq_Nil_conv)

declare py_split.simps [simp del]

function py_count :: "string \<Rightarrow> string \<Rightarrow> nat" where
  "py_count sep s =
     (if sep = [] \<or> s = [] then 0
      else if prefix sep s then Suc (py_count sep (drop (length sep) s))
      else py_count sep (tl s))"
  by pat_completeness auto
termination
  by (relation "measure (\<lambda>(sep, s). length s)") (auto simp: neq_Nil_conv)

declare py_count.simps [simp del]

section \<open>The semver library\<close>

text \<open>
  The inferencer calls \<^verbatim>\<open>semver.VersionInfo.parse\<close> and the two-argument
  \<^verbatim>\<open>semver.compare\<close> of the external \<^verbatim>\<open>semver\<close> package. They are modelled by the
  Semantic Versioning 2.0.0 grammar that the package implements: a version is
  \<open>MAJOR.MINOR.PATCH\<close> with an optional \<open>-prerelease\<close> and an optional \<open>+build\<close>; numeric
  identifiers have no leading zero; parsing anything else raises \<^verbatim>\<open>ValueError\<close>.
\<close>

definition is_digit :: "char \<Rightarrow> bool" where
  "is_digit c = (let n = (of_char c :: nat) in 48 \<le> n \<and> n \<le> 57)"

definition is_ident_char :: "char \<Rightarrow> bool" where
  "is_ident_char c =
     (let n = (of_char c :: nat)
      in (48 \<le> n \<and> n \<le> 57) \<or> (65 \<le> n \<and> n \<le> 90) \<or> (97 \<le> n \<and> n \<le> 122) \<or> n = 45)"

definition numeric_ident :: "string \<Rightarrow> bool" where
  "numeric_ident s = (s \<noteq> [] \<and> list_all is_digit s \<and> (s = ''0'' \<or> hd s \<noteq> CHR ''0''))"

definition prerelease_ident :: "string \<Rightarrow> bool" where
  "prerelease_ident s =
     (numeric_ident s \<or> (s \<noteq> [] \<and> list_all is_ident_char s \<and> \<not> list_all is_digit s))"

definition build_ident :: "string \<Rightarrow> bool" where
  "build_ident s = (s \<noteq> [] \<and> list_all is_ident_char s)"

definition int_of_digits :: "string \<Rightarrow> nat" where
  "int_of_digits s = foldl (\<lambda>n c. 10 * n + ((of_char c :: nat) - 48)) 0 s"

record version_info =
  major :: nat
  minor :: nat
  patch :: nat
  prerelease :: "string option"
  build :: "string option"

definition split_first :: "char \<Rightarrow> string \<Rightarrow> string \<times> string option" where
  "split_first c s =
     (takeWhile (\<lambda>x. x \<noteq> c) s,
      case dropWhile (\<lambda>x. x \<noteq> c) s of [] \<Rightarrow> None | _ # r \<Rightarrow> Some r)"

definition semver_parse :: "string \<Rightarrow> py_error + version_info" where
  "semver_parse s =
     (let (rest, bld) = split_first (CHR ''+'') s;
          (core, pre) = split_first (CHR ''-'') rest
      in case py_split ''.'' core of
           [ma, mi, pa] \<Rightarrow>
             if numeric_ident ma \<and> numeric_ident mi \<and> numeric_ident pa
                \<and> (case pre of None \<Rightarrow> True
                    | Some p \<Rightarrow> list_all prerelease_ident (py_split ''.'' p))
                \<and> (case bld of None \<Rightarrow> True
                    | Some b \<Rightarrow> list_all build_ident (py_split ''.'' b))
             then Inr \<lparr>major = int_of_digits ma, minor = int_of_digits mi,
                       patch = int_of_digits pa, prerelease = pre, build = bld\<rparr>
             else Inl ValueError
         | _ \<Rightarrow> Inl ValueError)"

text \<open>
  The inferencer also calls \<^verbatim>\<open>semver.valid\<close>. The package that provides
  \<^verbatim>\<open>VersionInfo.parse\<close> and the two-argument \<^verbatim>\<open>compare\<close> has no attribute \<^verbatim>\<open>valid\<close>: the
  attribute lookup raises \<^verbatim>\<open>AttributeError\<close>, whatever the argument is.
\<close>

definition semver_valid :: "string \<Rightarrow> py_error + bool" where
  "semver_valid s = Inl AttributeError"

text \<open>
  Precedence: major, minor and patch numerically; then a version without a prerelease is
  above one with a prerelease; prereleases are compared identifier by identifier, numeric
  ones numerically and below alphanumeric ones, the latter by code point; when one
  identifier list is a prefix of the other the lengths of the prerelease strings decide.
  Build metadata is ignored. The result is \<open>-1\<close>, \<open>0\<close> or \<open>1\<close>.
\<close>

definition cmp_nat :: "nat \<Rightarrow> nat \<Rightarrow> int" where
  "cmp_nat a b = (if a < b then - 1 else if b < a then 1 else 0)"

fun cmp_str :: "string \<Rightarrow> string \<Rightarrow> int" where
  "cmp_str [] [] = 0"
| "cmp_str [] (b # bs) = - 1"
| "cmp_str (a # as) [] = 1"
| "cmp_str (a # as) (b # bs) =
     (if a = b then cmp_str as bs else cmp_nat (of_char a) (of_char b))"

definition cmp_prerelease_tag :: "string \<Rightarrow> string \<Rightarrow> int" where
  "cmp_prerelease_tag a b =
     (let na = (a \<noteq> [] \<and> list_all is_digit a); nb = (b \<noteq> [] \<and> list_all is_digit b)
      in if na \<and> nb then cmp_nat (int_of_digits a) (int_of_digits b)
         else if na then - 1
         else if nb then 1
         else cmp_str a b)"

fun cmp_parts :: "string list \<Rightarrow> string list \<Rightarrow> int" where
  "cmp_parts (a # as) (b # bs) =
     (let c = cmp_prerelease_tag a b in if c \<noteq> 0 then c else cmp_parts as bs)"
| "cmp_parts _ _ = 0"

definition nat_cmp :: "string option \<Rightarrow> string option \<Rightarrow> int" where
  "nat_cmp a b =
     (let a' = (case a of None \<Rightarrow> [] | Some x \<Rightarrow> x);
          b' = (case b of None \<Rightarrow> [] | Some x \<Rightarrow> x);
          c = cmp_parts (py_split ''.'' a') (py_split ''.'' b')
      in if c \<noteq> 0 then c else cmp_nat (length a') (length b'))"

definition version_compare :: "version_info \<Rightarrow> version_info \<Rightarrow> int" where
  "version_compare x y =
     (let v = (if major x \<noteq> major y then cmp_nat (major x) (major y)
               else if minor x \<noteq> minor y then cmp_nat (minor x) (minor y)
               else cmp_nat (patch x) (patch y))
      in if v \<noteq> 0 then v
         else let rccmp = nat_cmp (prerelease x) (prerelease y)
              in if rccmp = 0 then 0
                 else if prerelease x = None then 1
                 else if prerelease y = None then - 1
                 else rccmp)"

text \<open>
  \<^verbatim>\<open>semver.compare(ver1, ver2)\<close> parses the first argument, then the second, and raises
  where parsing does; \<^verbatim>\<open>None\<close> is not a string and raises \<^verbatim>\<open>TypeError\<close>.
\<close>

definition semver_compare :: "pyval \<Rightarrow> pyval \<Rightarrow> py_error + int" where
  "semver_compare ver1 ver2 =
     (case ver1 of
        PyNone \<Rightarrow> Inl TypeError
      | PyStr s1 \<Rightarrow>
          (case semver_parse s1 of
             Inl err \<Rightarrow> Inl err
           | Inr v1 \<Rightarrow>
               (case ver2 of
                  PyNone \<Rightarrow> Inl TypeError
                | PyStr s2 \<Rightarrow>
                    (case semver_parse s2 of
                       Inl err \<Rightarrow> Inl err
                     | Inr v2 \<Rightarrow> Inr (version_compare v1 v2)))))"

section \<open>Data model\<close>

text \<open>
  The dictionary returned by \<^verbatim>\<open>Scanner.scan\<close> and the one returned by
  \<^verbatim>\<open>Inferencer.infer\<close>, as records. The values of \<open>subdirs\<close> are Python sets of ecosystem
  tags; a set is kept as the duplicate-free list of its elements. The order in which a
  set is iterated is not the order of that list: it depends on the hash seed of the
  process and is a parameter of the environment below.
\<close>

record parse_result =
  p_imports :: "string list"
  p_functions :: "string list"

record scanned_data =
  repo_path :: string
  primary_lang :: string
  langs :: "nat dict"
  subdirs :: "string list dict"
  parsed :: "parse_result dict"
  configs :: "string list dict dict"

record sub_inferred =
  s_deps :: "pyval dict"
  s_hidden :: "string list"
  s_insights :: "string list"

record inferred =
  deps :: "pyval dict"
  hidden :: "string list"
  conflicts :: "string list"
  insights :: "string list"
  per_subdir :: "sub_inferred dict"

text \<open>
  A cache file is missing, or does not hold JSON, or holds a JSON object whose key field
  (\<^verbatim>\<open>'repo'\<close> for the scanner, \<^verbatim>\<open>'hash'\<close> for the inferencer) and payload field may each be
  absent.
\<close>

datatype ('k, 'v) cache_file = NoFile | NotJson | Stored "'k option" "'v option"

text \<open>
  The external collaborators are the fields of an environment: the text-classification
  pipeline (the value of \<^verbatim>\<open>self.pipeline(prompt)[0]\<close>, a list of label and score, or an
  exception), the \<^verbatim>\<open>:.2f\<close> formatting of a score, the version source (the version that the
  package index reports, \<open>None\<close> when the request or the decoding of its answer raises),
  the decoding of a \<^verbatim>\<open>package.json\<close> into its \<^verbatim>\<open>dependencies\<close> and \<^verbatim>\<open>devDependencies\<close>,
  the two analyzers of the scanner (\<^verbatim>\<open>_parse_files\<close> and \<^verbatim>\<open>_detect_configs\<close>, given the
  subdirectory and the ecosystem), \<^verbatim>\<open>hash(str(scanned_data))\<close>, and the position that the
  hash seed of the process gives to a string in the iteration of a set of strings.
  Scores are rationals: the comparison of two finite floats is the comparison of their
  values.
\<close>

record env =
  pipeline :: "string \<Rightarrow> py_error + (string \<times> rat) list"
  fmt_score :: "rat \<Rightarrow> string"
  version_source :: "string \<Rightarrow> string option"
  package_json :: "string list \<Rightarrow> py_error + (string dict \<times> string dict)"
  parse_files :: "string \<Rightarrow> string \<Rightarrow> py_error + parse_result"
  detect_configs :: "string \<Rightarrow> string \<Rightarrow> py_error + string list dict"
  fingerprint :: "scanned_data \<Rightarrow> int"
  set_order :: "string \<Rightarrow> nat"

text \<open>
  Iterating a set of strings (\<^verbatim>\<open>for x in s\<close>, \<^verbatim>\<open>list(s)\<close>) yields its elements by their
  position under the hash seed; the scanner and the inferencer run in one process, with
  one environment.
\<close>

definition iterate :: "env \<Rightarrow> string list \<Rightarrow> string list" where
  "iterate e s = sort_key (set_order e) s"

section \<open>The inferencer\<close>

subsection \<open>\<^verbatim>\<open>_merge_existing_configs\<close>\<close>

text \<open>
  A line of \<^verbatim>\<open>requirements.txt\<close> that contains \<^verbatim>\<open>==\<close> is split at every \<^verbatim>\<open>==\<close> and
  unpacked into two variables, which raises \<^verbatim>\<open>ValueError\<close> unless the split has exactly
  two parts. Only \<^verbatim>\<open>JSONDecodeError\<close> is caught in the \<^verbatim>\<open>package.json\<close> branch.
\<close>

fun merge_requirements :: "string list \<Rightarrow> string dict \<Rightarrow> py_error + string dict" where
  "merge_requirements [] merged = Inr merged"
| "merge_requirements (line # lines) merged =
     (if py_in ''=='' line then
        (case py_split ''=='' line of
           [dep, ver] \<Rightarrow> merge_requirements lines (dict_set merged (strip dep) (strip ver))
         | _ \<Rightarrow> Inl ValueError)
      else merge_requirements lines merged)"

definition merge_existing_configs ::
  "env \<Rightarrow> string list dict \<Rightarrow> string \<Rightarrow> py_error + string dict" where
  "merge_existing_configs e cfgs lang =
     (if lang = ''python'' \<and> dict_get cfgs ''requirements.txt'' \<noteq> None then
        merge_requirements (dict_get_default cfgs ''requirements.txt'' []) []
      else if lang = ''js'' \<and> dict_get cfgs ''package.json'' \<noteq> None then
        (case package_json e (dict_get_default cfgs ''package.json'' []) of
           Inl err \<Rightarrow> if err = JSONDecodeError then Inr [] else Inl err
         | Inr (dependencies, dev_dependencies) \<Rightarrow>
             Inr (dict_update (dict_update [] dependencies) dev_dependencies))
      else Inr [])"

text \<open>
  What one line contributes when it does not raise: the text before \<^verbatim>\<open>==\<close>, stripped,
  mapped to the text after it, stripped; nothing when the line has no \<^verbatim>\<open>==\<close>.
\<close>

definition requirement_entry :: "string \<Rightarrow> string dict \<Rightarrow> string dict" where
  "requirement_entry line merged =
     (case py_split ''=='' line of
        [dep, ver] \<Rightarrow> dict_set merged (strip dep) (strip ver)
      | _ \<Rightarrow> merged)"

subsection \<open>\<^verbatim>\<open>_infer_hidden\<close>, \<^verbatim>\<open>_resolve_version_conflict\<close>, \<^verbatim>\<open>_get_latest_version\<close>, \<^verbatim>\<open>_is_deprecated\<close>\<close>

definition rules :: "string list dict dict" where
  "rules =
     [(''python'', [(''numpy'', [''scipy'', ''matplotlib'']), (''sklearn'', [''numpy'', ''scipy''])]),
      (''js'', [(''react'', [''react-dom'']), (''express'', [''body-parser''])])]"

definition infer_hidden :: "string \<Rightarrow> string \<Rightarrow> string list" where
  "infer_hidden imp lang = dict_get_default (dict_get_default rules lang []) imp []"

text \<open>
  The body of the \<^verbatim>\<open>try\<close> evaluates \<^verbatim>\<open>semver.valid(ver1) and semver.valid(ver2)\<close>, the
  second call only when the first is true; \<^verbatim>\<open>max(ver1, ver2, key=semver.VersionInfo.parse)\<close>
  parses both and returns its first argument unless the second is strictly greater. Only
  \<^verbatim>\<open>ValueError\<close> is caught, and gives \<^verbatim>\<open>'latest'\<close>; any other exception leaves the function.
\<close>

definition resolve_version_conflict :: "string \<Rightarrow> string \<Rightarrow> py_error + string" where
  "resolve_version_conflict ver1 ver2 =
     (let body =
        (case semver_valid ver1 of
           Inl err \<Rightarrow> Inl err
         | Inr valid1 \<Rightarrow>
             (case (if valid1 then semver_valid ver2 else Inr False) of
                Inl err \<Rightarrow> Inl err
              | Inr both \<Rightarrow>
                  if both then
                    (case semver_parse ver1 of
                       Inl err \<Rightarrow> Inl err
                     | Inr k1 \<Rightarrow>
                         (case semver_parse ver2 of
                            Inl err \<Rightarrow> Inl err
                          | Inr k2 \<Rightarrow> Inr (if 0 < version_compare k2 k1 then ver2 else ver1)))
                  else Inr ver2))
      in case body of
           Inl err \<Rightarrow> if err = ValueError then Inr ''latest'' else Inl err
         | Inr v \<Rightarrow> Inr v)"

text \<open>
  Only the python branch returns inside the \<^verbatim>\<open>try\<close>; for any other ecosystem the body
  ends without an exception and without a \<^verbatim>\<open>return\<close>, so the call evaluates to \<^verbatim>\<open>None\<close>.
\<close>

definition get_latest_version :: "env \<Rightarrow> string \<Rightarrow> string \<Rightarrow> pyval" where
  "get_latest_version e dep lang =
     (if lang = ''python'' then
        (case version_source e dep of
           Some v \<Rightarrow> PyStr v
         | None \<Rightarrow> PyStr ''latest'')
      else PyNone)"

definition deprecated :: "string dict dict" where
  "deprecated = [(''python'', [(''tensorflow'', ''<2.0'')])]"

definition is_deprecated :: "string \<Rightarrow> pyval \<Rightarrow> string \<Rightarrow> py_error + bool" where
  "is_deprecated dep ver lang =
     (case dict_get (dict_get_default deprecated lang []) dep of
        None \<Rightarrow> Inr False
      | Some cutoff \<Rightarrow>
          (case semver_compare ver (PyStr (lstrip_chars ''<'' cutoff)) of
             Inl err \<Rightarrow> Inl err
           | Inr c \<Rightarrow> Inr (c < 0)))"

subsection \<open>\<^verbatim>\<open>Inferencer.infer\<close>\<close>

definition prompt :: "string \<Rightarrow> string \<Rightarrow> string" where
  "prompt imp lang =
     ''Predict dependencies for import '' @ [CHR 0x27] @ imp @ [CHR 0x27] @ '' in '' @ lang
       @ '' code. Suggest version and hidden deps.''"

definition label_version :: "string \<Rightarrow> string" where
  "label_version dep = (if py_in '':'' dep then last (py_split '':'' dep) else ''latest'')"

definition label_name :: "string \<Rightarrow> string" where
  "label_name dep = hd (py_split '':'' dep)"

definition inference_insight :: "env \<Rightarrow> string \<Rightarrow> string \<times> rat \<Rightarrow> string" where
  "inference_insight e imp r =
     ''Inferred '' @ fst r @ '' from '' @ imp @ '' with score '' @ fmt_score e (snd r)"

text \<open>The loop over the predictions for one import (\<^verbatim>\<open>for result in results\<close>).\<close>

fun accept_results ::
  "env \<Rightarrow> string \<Rightarrow> (string \<times> rat) list \<Rightarrow> string dict \<times> string list
     \<Rightarrow> string dict \<times> string list" where
  "accept_results e imp [] st = st"
| "accept_results e imp ((label, score) # results) (ds, ins) =
     (if 7 / 10 < score then
        accept_results e imp results
          (dict_set ds (label_name label) (label_version label),
           ins @ [inference_insight e imp (label, score)])
      else accept_results e imp results (ds, ins))"

text \<open>
  The loop over the imports of a subdirectory; the state is the subdirectory's
  dependency map, hidden list and insight list.
\<close>

fun classify_imports ::
  "env \<Rightarrow> string \<Rightarrow> string list \<Rightarrow> string dict \<times> string list \<times> string list
     \<Rightarrow> py_error + string dict \<times> string list \<times> string list" where
  "classify_imports e lang [] st = Inr st"
| "classify_imports e lang (imp # imps) (ds, hid, ins) =
     (case pipeline e (prompt imp lang) of
        Inl err \<Rightarrow> Inl err
      | Inr results \<Rightarrow>
          (case accept_results e imp results (ds, ins) of
             (ds', ins') \<Rightarrow>
               classify_imports e lang imps (ds', hid @ infer_hidden imp lang, ins')))"

definition conflict_entry :: "string \<Rightarrow> string \<Rightarrow> string \<Rightarrow> string" where
  "conflict_entry dep ver resolved_ver =
     ''Resolved '' @ dep @ '' from '' @ ver @ '' to '' @ resolved_ver"

text \<open>
  The loop over the declared dependencies (\<^verbatim>\<open>for dep, ver in existing_deps.items()\<close>); the
  state is the subdirectory's dependency map and the global conflict list. An exception
  of \<^verbatim>\<open>_resolve_version_conflict\<close> leaves the loop.
\<close>

fun merge_declared ::
  "string dict \<Rightarrow> string dict \<times> string list \<Rightarrow> py_error + string dict \<times> string list" where
  "merge_declared [] st = Inr st"
| "merge_declared ((dep, ver) # existing) (ds, cfl) =
     (case dict_get ds dep of
        Some inferred_ver \<Rightarrow>
          (case resolve_version_conflict ver inferred_ver of
             Inl err \<Rightarrow> Inl err
           | Inr resolved_ver \<Rightarrow>
               merge_declared existing
                 (dict_set ds dep resolved_ver,
                  if ver \<noteq> resolved_ver then cfl @ [conflict_entry dep ver resolved_ver]
                  else cfl))
      | None \<Rightarrow> merge_declared existing (dict_set ds dep ver, cfl))"

text \<open>
  The loop over \<^verbatim>\<open>list(sub_inferred['deps'].keys())\<close> that replaces each \<^verbatim>\<open>'latest'\<close>; each
  key is visited once and only its own value is written. Up to here every version is a
  string.
\<close>

definition fetch_latest :: "env \<Rightarrow> string \<Rightarrow> string dict \<Rightarrow> pyval dict" where
  "fetch_latest e lang ds =
     map (\<lambda>(dep, ver).
            (dep, if ver = ''latest'' then get_latest_version e dep lang else PyStr ver)) ds"

text \<open>
  The deprecation loop runs over the items of the dependency map and writes only the
  value of the key it is visiting, so it sees the items as they were when it started. The
  state is the dependency map, the subdirectory's insight list and the global conflict
  list.
\<close>

definition deprecation_insight :: "string \<Rightarrow> pyval \<Rightarrow> string" where
  "deprecation_insight dep ver = ''Deprecated: '' @ dep @ ''@'' @ py_str ver @ ''; suggest upgrade''"

definition upgrade_entry :: "string \<Rightarrow> pyval \<Rightarrow> string" where
  "upgrade_entry dep latest = ''Auto-upgraded '' @ dep @ '' to '' @ py_str latest"

fun deprecation_sweep ::
  "env \<Rightarrow> string \<Rightarrow> pyval dict \<Rightarrow> pyval dict \<times> string list \<times> string list
     \<Rightarrow> py_error + pyval dict \<times> string list \<times> string list" where
  "deprecation_sweep e lang [] st = Inr st"
| "deprecation_sweep e lang ((dep, ver) # items) (ds, ins, cfl) =
     (case is_deprecated dep ver lang of
        Inl err \<Rightarrow> Inl err
      | Inr False \<Rightarrow> deprecation_sweep e lang items (ds, ins, cfl)
      | Inr True \<Rightarrow>
          (let ins' = ins @ [deprecation_insight dep ver];
               latest = get_latest_version e dep lang
           in case semver_compare latest ver of
                Inl err \<Rightarrow> Inl err
              | Inr c \<Rightarrow>
                  if 0 < c then
                    deprecation_sweep e lang items
                      (dict_set ds dep latest, ins', cfl @ [upgrade_entry dep latest])
                  else deprecation_sweep e lang items (ds, ins', cfl)))"

text \<open>
  \<^verbatim>\<open>list(scanned_data['subdirs'][subdir])[0] if subdir in scanned_data['subdirs'] else
  scanned_data['primary_lang']\<close>: the first tag in the iteration of the tag set; indexing
  the empty list raises \<^verbatim>\<open>IndexError\<close>.
\<close>

definition subdir_lang :: "env \<Rightarrow> scanned_data \<Rightarrow> string \<Rightarrow> py_error + string" where
  "subdir_lang e d subdir =
     (case dict_get (subdirs d) subdir of
        None \<Rightarrow> Inr (primary_lang d)
      | Some tags \<Rightarrow>
          (case iterate e tags of
             [] \<Rightarrow> Inl IndexError
           | l # _ \<Rightarrow> Inr l))"

text \<open>The body of the loop over \<^verbatim>\<open>scanned_data['parsed'].items()\<close>.\<close>

definition infer_subdir ::
  "env \<Rightarrow> scanned_data \<Rightarrow> string \<Rightarrow> parse_result \<Rightarrow> inferred \<Rightarrow> py_error + inferred" where
  "infer_subdir e d subdir p acc =
     (let cfgs = dict_get_default (configs d) subdir []
      in case subdir_lang e d subdir of
           Inl err \<Rightarrow> Inl err
         | Inr lang \<Rightarrow>
         (case merge_existing_configs e cfgs lang of
           Inl err \<Rightarrow> Inl err
         | Inr existing_deps \<Rightarrow>
         (case classify_imports e lang (p_imports p) ([], [], []) of
           Inl err \<Rightarrow> Inl err
         | Inr (ds1, hid, ins1) \<Rightarrow>
         (case merge_declared existing_deps (ds1, conflicts acc) of
           Inl err \<Rightarrow> Inl err
         | Inr (ds2, cfl2) \<Rightarrow>
         (case deprecation_sweep e lang (fetch_latest e lang ds2)
                 (fetch_latest e lang ds2, ins1, cfl2) of
           Inl err \<Rightarrow> Inl err
         | Inr (ds3, ins3, cfl3) \<Rightarrow>
             Inr \<lparr>deps = dict_update (deps acc) ds3,
                  hidden = hidden acc @ hid,
                  conflicts = cfl3,
                  insights = insights acc @ ins3,
                  per_subdir = dict_set (per_subdir acc) subdir
                     \<lparr>s_deps = ds3, s_hidden = hid, s_insights = ins3\<rparr>\<rparr>)))))"

fun infer_loop ::
  "env \<Rightarrow> scanned_data \<Rightarrow> parse_result dict \<Rightarrow> inferred \<Rightarrow> py_error + inferred" where
  "infer_loop e d [] acc = Inr acc"
| "infer_loop e d ((subdir, p) # rest) acc =
     (case infer_subdir e d subdir p acc of
        Inl err \<Rightarrow> Inl err
      | Inr acc' \<Rightarrow> infer_loop e d rest acc')"

definition empty_inferred :: inferred where
  "empty_inferred =
     \<lparr>deps = [], hidden = [], conflicts = [], insights = [], per_subdir = []\<rparr>"

text \<open>Inference without the cache (lines 30 to 91 of the source).\<close>

definition infer_fresh :: "env \<Rightarrow> scanned_data \<Rightarrow> py_error + inferred" where
  "infer_fresh e d = infer_loop e d (parsed d) empty_inferred"


subsection \<open>The logs of a subdirectory, by kind\<close>

text \<open>
  The entries that the description of the engine distinguishes, as functions of the
  inputs: the predictions of the classifier for an import (none when the call raises), the
  classification insights of a list of imports, in the order of the imports and, for one
  import, of its predictions; the transitive hints of a list of imports; and the test
  that the insight list of a subdirectory begins with its classification insights and
  that its hidden list is the transitive hints.
\<close>

definition predictions :: "env \<Rightarrow> string \<Rightarrow> string \<Rightarrow> (string \<times> rat) list" where
  "predictions e lang imp = (case pipeline e (prompt imp lang) of Inl _ \<Rightarrow> [] | Inr rs \<Rightarrow> rs)"

definition classification_insights :: "env \<Rightarrow> string \<Rightarrow> string list \<Rightarrow> string list" where
  "classification_insights e lang imps =
     concat (map (\<lambda>imp. map (inference_insight e imp)
                           (filter (\<lambda>r. 7 / 10 < snd r) (predictions e lang imp))) imps)"

definition transitive_hints :: "string \<Rightarrow> string list \<Rightarrow> string list" where
  "transitive_hints lang imps = concat (map (\<lambda>imp. infer_hidden imp lang) imps)"

definition logs_in_order ::
  "env \<Rightarrow> scanned_data \<Rightarrow> string \<times> parse_result \<Rightarrow> string \<times> sub_inferred \<Rightarrow> bool" where
  "logs_in_order e d sp ks =
     (fst ks = fst sp \<and>
      (case subdir_lang e d (fst sp) of
         Inl _ \<Rightarrow> False
       | Inr lang \<Rightarrow>
           s_hidden (snd ks) = transitive_hints lang (p_imports (snd sp))
           \<and> prefix (classification_insights e lang (p_imports (snd sp))) (s_insights (snd ks))))"




section \<open>The scanner\<close>

subsection \<open>\<^verbatim>\<open>_detect_languages_and_subdirs\<close>\<close>

text \<open>
  The materialized repository is a tree of directories, each with the names of its files
  and its named subdirectories. \<^verbatim>\<open>os.walk\<close> visits the top directory first and then each
  subdirectory in turn, depth first; a visited directory is given here by the path
  components from the top to it. \<^verbatim>\<open>os.path.relpath(root, self.repo_path)\<close> is \<^verbatim>\<open>'.'\<close> for the
  top directory itself and the components joined by the separator otherwise.
\<close>

datatype dir = Dir "string list" "(string \<times> dir) list"

fun walk :: "string list \<Rightarrow> dir \<Rightarrow> (string list \<times> string list) list" where
  "walk p (Dir files ds) = (p, files) # concat (map (\<lambda>nd. walk (p @ [fst nd]) (snd nd)) ds)"

fun join_path :: "string list \<Rightarrow> string" where
  "join_path [] = []"
| "join_path [c] = c"
| "join_path (c # cs) = c @ ''/'' @ join_path cs"

definition rel_root :: "string list \<Rightarrow> string" where
  "rel_root p = (if p = [] then ''.'' else join_path p)"

definition file_lang :: "string \<Rightarrow> string option" where
  "file_lang file =
     (if endswith file ''.py'' then Some ''python''
      else if endswith file ''.js'' \<or> endswith file ''.ts'' \<or> endswith file ''.jsx'' then Some ''js''
      else if endswith file ''.java'' then Some ''java''
      else if endswith file ''.go'' then Some ''go''
      else if endswith file ''.rb'' then Some ''ruby''
      else None)"

definition set_add :: "string list \<Rightarrow> string \<Rightarrow> string list" where
  "set_add s x = (if x \<in> set s then s else s @ [x])"

text \<open>The loop over the files of one directory; the state is \<open>langs\<close> and \<open>subdirs\<close>.\<close>

fun tag_files ::
  "string \<Rightarrow> string list \<Rightarrow> nat dict \<times> string list dict \<Rightarrow> nat dict \<times> string list dict" where
  "tag_files rel [] st = st"
| "tag_files rel (file # files) (lg, sd) =
     (case file_lang file of
        None \<Rightarrow> tag_files rel files (lg, sd)
      | Some l \<Rightarrow>
          tag_files rel files
            (dict_set lg l (dict_get_default lg l 0 + 1),
             dict_set sd rel (set_add (dict_get_default sd rel []) l)))"

fun detect_walk ::
  "(string list \<times> string list) list \<Rightarrow> nat dict \<times> string list dict
     \<Rightarrow> nat dict \<times> string list dict" where
  "detect_walk [] st = st"
| "detect_walk ((p, files) # rest) (lg, sd) =
     detect_walk rest (tag_files (rel_root p) files (lg, setdefault sd (rel_root p) []))"

definition detect_languages_and_subdirs :: "dir \<Rightarrow> nat dict \<times> string list dict" where
  "detect_languages_and_subdirs tree =
     detect_walk (walk [] tree)
       ([(''python'', 0), (''js'', 0), (''java'', 0), (''go'', 0), (''ruby'', 0)],
        [(''/'', [])])"

subsection \<open>\<^verbatim>\<open>Scanner.scan\<close>\<close>

text \<open>
  \<^verbatim>\<open>forced_lang or max(langs, key=langs.get, default='python')\<close>: \<^verbatim>\<open>max\<close> returns the first
  key with the greatest count; \<^verbatim>\<open>None\<close> and the empty string are false.
\<close>

fun max_by_count :: "string \<times> nat \<Rightarrow> nat dict \<Rightarrow> string" where
  "max_by_count (k, n) [] = k"
| "max_by_count (k, n) ((k', n') # rest) =
     (if n < n' then max_by_count (k', n') rest else max_by_count (k, n) rest)"

definition pick_primary_lang :: "string option \<Rightarrow> nat dict \<Rightarrow> string" where
  "pick_primary_lang forced_lang lg =
     (let by_count = (case lg of [] \<Rightarrow> ''python'' | kn # rest \<Rightarrow> max_by_count kn rest)
      in case forced_lang of
           None \<Rightarrow> by_count
         | Some l \<Rightarrow> if l = [] then by_count else l)"

text \<open>
  The two nested loops of \<^verbatim>\<open>scan\<close>: for every subdirectory and every ecosystem of its tag
  set, in the order in which the set is iterated, the entries of the subdirectory in
  \<open>parsed\<close> and \<open>configs\<close> are assigned, so the analysis for the last tag is the one that
  is kept. A subdirectory with an empty tag set runs the inner loop zero times.
\<close>

fun analyze_langs ::
  "env \<Rightarrow> string \<Rightarrow> string list \<Rightarrow> parse_result dict \<times> string list dict dict
     \<Rightarrow> py_error + parse_result dict \<times> string list dict dict" where
  "analyze_langs e subdir [] st = Inr st"
| "analyze_langs e subdir (sub_lang # sub_langs) (ps, cs) =
     (case parse_files e subdir sub_lang of
        Inl err \<Rightarrow> Inl err
      | Inr p \<Rightarrow>
          (case detect_configs e subdir sub_lang of
             Inl err \<Rightarrow> Inl err
           | Inr c \<Rightarrow> analyze_langs e subdir sub_langs (dict_set ps subdir p, dict_set cs subdir c)))"

fun analyze_subdirs ::
  "env \<Rightarrow> string list dict \<Rightarrow> parse_result dict \<times> string list dict dict
     \<Rightarrow> py_error + parse_result dict \<times> string list dict dict" where
  "analyze_subdirs e [] st = Inr st"
| "analyze_subdirs e ((subdir, sub_langs) # rest) st =
     (case analyze_langs e subdir (iterate e sub_langs) st of
        Inl err \<Rightarrow> Inl err
      | Inr st' \<Rightarrow> analyze_subdirs e rest st')"

text \<open>
  One attempt of \<^verbatim>\<open>scan\<close>: the result and the cache file afterwards. The arguments are the
  caching flag, the cache file, the repository reference, the forced language, and the
  materialized repository (its path and its tree). A cached record is returned when its
  \<^verbatim>\<open>'repo'\<close> equals the repository reference. When caching is on and the scan was computed,
  \<^verbatim>\<open>json.dump\<close> opens the cache file for writing and raises \<^verbatim>\<open>TypeError\<close> at the first set
  in \<open>subdirs\<close> (the key \<^verbatim>\<open>'/'\<close> always has one), leaving a file that is not JSON.
\<close>

definition scan_once ::
  "env \<Rightarrow> bool \<Rightarrow> (string, scanned_data) cache_file \<Rightarrow> string \<Rightarrow> string option
     \<Rightarrow> string \<Rightarrow> dir \<Rightarrow> (py_error + scanned_data) \<times> (string, scanned_data) cache_file" where
  "scan_once e use_cache cf repo_input forced_lang rpath tree =
     (let fresh =
        (case detect_languages_and_subdirs tree of
           (lg, sd) \<Rightarrow>
             (case analyze_subdirs e sd ([], []) of
                Inl err \<Rightarrow> (Inl err, cf)
              | Inr (ps, cs) \<Rightarrow>
                  if use_cache then (Inl TypeError, NotJson)
                  else (Inr \<lparr>repo_path = rpath,
                              primary_lang = pick_primary_lang forced_lang lg,
                              langs = lg, subdirs = sd, parsed = ps, configs = cs\<rparr>, cf)))
      in if use_cache then
           (case cf of
              NoFile \<Rightarrow> fresh
            | NotJson \<Rightarrow> (Inl JSONDecodeError, cf)
            | Stored r data \<Rightarrow>
                if r = Some repo_input then
                  (case data of None \<Rightarrow> (Inl KeyError, cf) | Some cached \<Rightarrow> (Inr cached, cf))
                else fresh)
         else fresh)"

text \<open>
  \<^verbatim>\<open>@retry(stop=stop_after_attempt(3))\<close>: an attempt that raises is repeated, with the cache
  file as the failed attempt left it; after the third failure \<^verbatim>\<open>RetryError\<close> is raised.
\<close>

definition scan ::
  "env \<Rightarrow> bool \<Rightarrow> (string, scanned_data) cache_file \<Rightarrow> string \<Rightarrow> string option
     \<Rightarrow> string \<Rightarrow> dir \<Rightarrow> (py_error + scanned_data) \<times> (string, scanned_data) cache_file" where
  "scan e use_cache cf repo_input forced_lang rpath tree =
     (case scan_once e use_cache cf repo_input forced_lang rpath tree of
        (Inr d, cf1) \<Rightarrow> (Inr d, cf1)
      | (Inl _, cf1) \<Rightarrow>
     (case scan_once e use_cache cf1 repo_input forced_lang rpath tree of
        (Inr d, cf2) \<Rightarrow> (Inr d, cf2)
      | (Inl _, cf2) \<Rightarrow>
     (case scan_once e use_cache cf2 repo_input forced_lang rpath tree of
        (Inr d, cf3) \<Rightarrow> (Inr d, cf3)
      | (Inl _, cf3) \<Rightarrow> (Inl RetryError, cf3))))"

section \<open>A stub environment and sample inputs\<close>

text \<open>
  A deterministic classifier stub that answers every prompt with one confident and one
  unconfident prediction, a version source that always fails, analyzers that find one
  import (\<^verbatim>\<open>react\<close> for js, \<^verbatim>\<open>numpy\<close> otherwise) and a \<^verbatim>\<open>requirements.txt\<close> in every
  subdirectory, and a hash seed under which a set is iterated in the order of insertion.
\<close>

definition stub_env :: env where
  "stub_env =
     \<lparr>pipeline = (\<lambda>p. Inr [(''numpy:1.24.0'', 9 / 10), (''pandas'', 1 / 2)]),
      fmt_score = (\<lambda>r. if r = 9 / 10 then ''0.90'' else ''0.50''),
      version_source = (\<lambda>dep. None),
      package_json = (\<lambda>ls. Inl JSONDecodeError),
      parse_files = (\<lambda>subdir lang.
         Inr \<lparr>p_imports = (if lang = ''js'' then [''react''] else [''numpy'']),
              p_functions = []\<rparr>),
      detect_configs = (\<lambda>subdir lang.
         Inr [(''requirements.txt'', [''requests==2.31.0'', ''flask==3.0.0''])]),
      fingerprint = (\<lambda>d. 0),
      set_order = (\<lambda>tag. 0)\<rparr>"

text \<open>
  A repository with a python file and a text file at the top and one subdirectory without
  any recognized file; \<open>sample_data\<close> is what a scan of it returns with the stub analyzers
  and \<open>sample_result\<close> what inference returns on \<open>sample_data\<close>.
\<close>

definition sample_repo :: dir where
  "sample_repo = Dir [''app.py'', ''README.md''] [(''docs'', Dir [''index.md''] [])]"

definition sample_data :: scanned_data where
  "sample_data =
     \<lparr>repo_path = ''/repo'', primary_lang = ''python'',
      langs = [(''python'', 1), (''js'', 0), (''java'', 0), (''go'', 0), (''ruby'', 0)],
      subdirs = [(''/'', []), (''.'', [''python'']), (''docs'', [])],
      parsed = [(''.'', \<lparr>p_imports = [''numpy''], p_functions = []\<rparr>)],
      configs = [(''.'', [(''requirements.txt'', [''requests==2.31.0'', ''flask==3.0.0''])])]\<rparr>"

definition sample_result :: inferred where
  "sample_result =
     \<lparr>deps = [(''numpy'', PyStr ''1.24.0''), (''requests'', PyStr ''2.31.0''),
              (''flask'', PyStr ''3.0.0'')],
      hidden = [''scipy'', ''matplotlib''],
      conflicts = [],
      insights = [''Inferred numpy:1.24.0 from numpy with score 0.90''],
      per_subdir =
        [(''.'', \<lparr>s_deps = [(''numpy'', PyStr ''1.24.0''), (''requests'', PyStr ''2.31.0''),
                            (''flask'', PyStr ''3.0.0'')],
                  s_hidden = [''scipy'', ''matplotlib''],
                  s_insights = [''Inferred numpy:1.24.0 from numpy with score 0.90'']\<rparr>)]\<rparr>"


text \<open>
  A python subdirectory that declares \<^verbatim>\<open>numpy==1.20.0\<close> and imports \<^verbatim>\<open>numpy\<close>, for which
  the stub classifier predicts \<^verbatim>\<open>numpy:1.24.0\<close>.
\<close>

definition conflict_data :: scanned_data where
  "conflict_data =
     \<lparr>repo_path = ''/repo'', primary_lang = ''python'',
      langs = [(''python'', 1), (''js'', 0), (''java'', 0), (''go'', 0), (''ruby'', 0)],
      subdirs = [(''/'', []), (''.'', [''python''])],
      parsed = [(''.'', \<lparr>p_imports = [''numpy''], p_functions = []\<rparr>)],
      configs = [(''.'', [(''requirements.txt'', [''numpy==1.20.0''])])]\<rparr>"

text \<open>A python subdirectory that declares \<^verbatim>\<open>tensorflow==1.9\<close> and imports nothing.\<close>

definition tensorflow_data :: scanned_data where
  "tensorflow_data =
     \<lparr>repo_path = ''/repo'', primary_lang = ''python'',
      langs = [(''python'', 1), (''js'', 0), (''java'', 0), (''go'', 0), (''ruby'', 0)],
      subdirs = [(''/'', []), (''.'', [''python''])],
      parsed = [(''.'', \<lparr>p_imports = [], p_functions = []\<rparr>)],
      configs = [(''.'', [(''requirements.txt'', [''tensorflow==1.9''])])]\<rparr>"

text \<open>A python subdirectory whose \<^verbatim>\<open>requirements.txt\<close> has a line with two \<^verbatim>\<open>==\<close>.\<close>

definition malformed_data :: scanned_data where
  "malformed_data =
     \<lparr>repo_path = ''/repo'', primary_lang = ''python'',
      langs = [(''python'', 1), (''js'', 0), (''java'', 0), (''go'', 0), (''ruby'', 0)],
      subdirs = [(''/'', []), (''.'', [''python''])],
      parsed = [(''.'', \<lparr>p_imports = [], p_functions = []\<rparr>)],
      configs = [(''.'', [(''requirements.txt'', [''a==b==c''])])]\<rparr>"

text \<open>
  A js subdirectory that imports \<^verbatim>\<open>react\<close>, with a classifier stub that predicts the label
  \<^verbatim>\<open>react\<close> (no version hint) with confidence 0.9.
\<close>

definition react_env :: env where
  "react_env = stub_env\<lparr>pipeline := (\<lambda>p. Inr [(''react'', 9 / 10)])\<rparr>"

definition react_data :: scanned_data where
  "react_data =
     \<lparr>repo_path = ''/repo'', primary_lang = ''js'',
      langs = [(''python'', 0), (''js'', 1), (''java'', 0), (''go'', 0), (''ruby'', 0)],
      subdirs = [(''/'', []), (''web'', [''js''])],
      parsed = [(''web'', \<lparr>p_imports = [''react''], p_functions = []\<rparr>)],
      configs = [(''web'', [])]\<rparr>"









section \<open>Properties of the string methods\<close>

lemma length_py_split: "sep \<noteq> [] \<Longrightarrow> length (py_split sep s) = Suc (py_count sep s)"
proof (induction sep s rule: py_split.induct)
  case (1 sep s)
  show ?case
  proof (cases "s = []")
    case True
    then show ?thesis by (simp add: py_split.simps py_count.simps)
  next
    case False
    show ?thesis
    proof (cases "prefix sep s")
      case True
      with False 1 show ?thesis
        by (subst py_split.simps, subst py_count.simps) simp
    next
      case np: False
      with False 1 have "length (py_split sep (tl s)) = Suc (py_count sep (tl s))" by simp
      with False np 1(3) show ?thesis
        by (subst py_split.simps, subst py_count.simps) (auto split: list.splits)
    qed
  qed
qed

lemma py_in_count: "sep \<noteq> [] \<Longrightarrow> py_in sep s \<longleftrightarrow> 0 < py_count sep s"
proof (induction sep s rule: py_count.induct)
  case (1 sep s)
  show ?case
  proof (cases s)
    case Nil
    with 1(3) show ?thesis by (simp add: py_count.simps)
  next
    case (Cons c cs)
    show ?thesis
    proof (cases "prefix sep s")
      case True
      with Cons 1(3) show ?thesis by (subst py_count.simps) auto
    next
      case False
      with Cons 1 have "py_in sep cs \<longleftrightarrow> 0 < py_count sep cs" by simp
      with Cons False 1(3) show ?thesis by (subst py_count.simps) auto
    qed
  qed
qed
lemma py_split_single: "sep \<noteq> [] \<Longrightarrow> py_count sep s = 0 \<Longrightarrow> py_split sep s = [s]"
proof (induction sep s rule: py_split.induct)
  case (1 sep s)
  show ?case
  proof (cases "s = []")
    case True
    then show ?thesis by (simp add: py_split.simps)
  next
    case False
    from 1(4) False 1(3) have np: "\<not> prefix sep s"
      by (subst (asm) py_count.simps) (auto split: if_splits)
    with 1(4) False 1(3) have "py_count sep (tl s) = 0"
      by (subst (asm) py_count.simps) (auto split: if_splits)
    with 1 False np have "py_split sep (tl s) = [tl s]" by simp
    with False np 1(3) show ?thesis
      by (subst py_split.simps) simp
  qed
qed

lemma py_split_pair:
  "sep \<noteq> [] \<Longrightarrow> py_count sep s = 1 \<Longrightarrow>
   \<exists>a b. py_split sep s = [a, b] \<and> s = a @ sep @ b \<and> py_count sep b = 0"
proof (induction sep s rule: py_split.induct)
  case (1 sep s)
  show ?case
  proof (cases "s = []")
    case True
    with 1(4) show ?thesis by (simp add: py_count.simps)
  next
    case False
    show ?thesis
    proof (cases "prefix sep s")
      case True
      with 1(4) False 1(3) have c0: "py_count sep (drop (length sep) s) = 0"
        by (subst (asm) py_count.simps) (auto split: if_splits)
      then have "py_split sep (drop (length sep) s) = [drop (length sep) s]"
        using 1(3) by (rule py_split_single[rotated])
      moreover from True have "s = sep @ drop (length sep) s"
        by (auto simp: prefix_def)
      ultimately show ?thesis using False True 1(3) c0
        by (subst py_split.simps) auto
    next
      case np: False
      with 1(4) False 1(3) have "py_count sep (tl s) = 1"
        by (subst (asm) py_count.simps) (auto split: if_splits)
      with 1(2)[OF _ np 1(3)] False 1(3)
      obtain a b where ab: "py_split sep (tl s) = [a, b]" "tl s = a @ sep @ b" "py_count sep b = 0"
        by auto
      from False ab(2) have "s = (hd s # a) @ sep @ b"
        by (cases s) auto
      with ab False np 1(3) show ?thesis
        by (subst py_split.simps) auto
    qed
  qed
qed

lemma merge_requirements_fold:
  "merge_requirements lines merged =
     (if \<exists>l\<in>set lines. 2 \<le> py_count ''=='' l then Inl ValueError
      else Inr (fold requirement_entry lines merged))"
proof (induction lines arbitrary: merged)
  case Nil
  show ?case by simp
next
  case (Cons l ls)
  have ne: "''=='' \<noteq> ([]::string)" by simp
  note len = length_py_split[OF ne, of l]
  note inc = py_in_count[OF ne, of l]
  consider (zero) "py_count ''=='' l = 0" | (one) "py_count ''=='' l = 1" | (more) "2 \<le> py_count ''=='' l"
    by linarith
  then show ?case
  proof cases
    case zero
    have "requirement_entry l merged = merged"
      using py_split_single[OF ne zero] unfolding requirement_entry_def by simp
    with zero inc Cons show ?thesis by simp
  next
    case one
    from py_split_pair[OF ne one] obtain a b where ab: "py_split ''=='' l = [a, b]" by blast
    then have "requirement_entry l merged = dict_set merged (strip a) (strip b)"
      unfolding requirement_entry_def by simp
    with ab one inc Cons show ?thesis by simp
  next
    case more
    with len have "3 \<le> length (py_split ''=='' l)" by simp
    then obtain a b c r where "py_split ''=='' l = a # b # c # r"
      by (auto simp: numeral_3_eq_3 Suc_le_length_iff)
    with more inc show ?thesis by simp
  qed
qed

section \<open>Merging the declared configuration\<close>

text \<open>
  Claim C10. The merge of the declared configuration of a python subdirectory is not
  total: a \<^verbatim>\<open>requirements.txt\<close> with the line \<^verbatim>\<open>a==b==c\<close> makes it raise \<^verbatim>\<open>ValueError\<close>, which
  inference does not catch, and so does every file with a line that has two or more
  \<^verbatim>\<open>==\<close>. When no line has more than
  one, the merge returns the map built line by line, where a line with exactly one \<^verbatim>\<open>==\<close>
  maps the stripped text before it to the stripped text after it, and a line without
  \<^verbatim>\<open>==\<close> adds nothing.
\<close>

theorem merge_existing_configs_requirements:
  "merge_existing_configs e [(''requirements.txt'', [''a==b==c''])] ''python'' = Inl ValueError
   \<and> infer_fresh e malformed_data = Inl ValueError
   \<and> (\<forall>cfgs lines. dict_get cfgs ''requirements.txt'' = Some lines \<longrightarrow>
         merge_existing_configs e cfgs ''python'' =
           (if \<exists>l\<in>set lines. 2 \<le> py_count ''=='' l then Inl ValueError
            else Inr (fold requirement_entry lines [])))
   \<and> (\<forall>l m. py_count ''=='' l = 1 \<longrightarrow>
         (\<exists>dep ver. l = dep @ ''=='' @ ver
            \<and> requirement_entry l m = dict_set m (strip dep) (strip ver)))
   \<and> (\<forall>l m. py_count ''=='' l = 0 \<longrightarrow> requirement_entry l m = m)"
proof (intro conjI allI impI)
  have "py_split ''=='' ''a==b==c'' = [''a'', ''b'', ''c'']" by code_simp
  then show raises: "merge_existing_configs e [(''requirements.txt'', [''a==b==c''])] ''python''
      = Inl ValueError"
    by (simp add: merge_existing_configs_def dict_get_default_def)
  then show "infer_fresh e malformed_data = Inl ValueError"
    by (simp add: infer_fresh_def malformed_data_def infer_subdir_def subdir_lang_def
          iterate_def dict_get_default_def)
next
  fix cfgs :: "string list dict" and lines :: "string list"
  assume "dict_get cfgs ''requirements.txt'' = Some lines"
  then show "merge_existing_configs e cfgs ''python'' =
      (if \<exists>l\<in>set lines. 2 \<le> py_count ''=='' l then Inl ValueError
       else Inr (fold requirement_entry lines []))"
    by (simp add: merge_existing_configs_def dict_get_default_def merge_requirements_fold)
next
  fix l :: string and m :: "string dict"
  assume "py_count ''=='' l = 1"
  then obtain a b where "py_split ''=='' l = [a, b]" "l = a @ ''=='' @ b"
    using py_split_pair [of "''==''" l] by auto
  then show "\<exists>dep ver. l = dep @ ''=='' @ ver
      \<and> requirement_entry l m = dict_set m (strip dep) (strip ver)"
    unfolding requirement_entry_def by auto
next
  fix l :: string and m :: "string dict"
  assume "py_count ''=='' l = 0"
  then have "py_split ''=='' l = [l]"
    using py_split_single [of "''==''" l] by simp
  then show "requirement_entry l m = m"
    unfolding requirement_entry_def by simp
qed

theorem merge_existing_configs_requirements_witness:
  "dict_get [(''requirements.txt'', [''numpy==1.20.0'', ''# pinned'', '' requests == 2.31.0 ''])]
      ''requirements.txt'' = Some [''numpy==1.20.0'', ''# pinned'', '' requests == 2.31.0 '']
   \<and> merge_existing_configs stub_env
        [(''requirements.txt'', [''numpy==1.20.0'', ''# pinned'', '' requests == 2.31.0 ''])]
        ''python'' = Inr [(''numpy'', ''1.20.0''), (''requests'', ''2.31.0'')]
   \<and> py_count ''=='' ''numpy==1.20.0'' = 1
   \<and> (\<exists>dep ver. ''numpy==1.20.0'' = dep @ ''=='' @ ver
        \<and> requirement_entry ''numpy==1.20.0'' [] = dict_set [] (strip dep) (strip ver))
   \<and> py_count ''=='' ''# pinned'' = 0
   \<and> requirement_entry ''# pinned'' [] = []"
proof -
  let ?L = "[''numpy==1.20.0'', ''# pinned'', '' requests == 2.31.0 '']"
  have g: "dict_get [(''requirements.txt'', ?L)] ''requirements.txt'' = Some ?L" by simp
  have a: "\<not> (\<exists>l\<in>set ?L. 2 \<le> py_count ''=='' l)" by code_simp
  have b: "fold requirement_entry ?L [] = [(''numpy'', ''1.20.0''), (''requests'', ''2.31.0'')]"
    by code_simp
  have c1: "py_count ''=='' ''numpy==1.20.0'' = 1" by code_simp
  have c0: "py_count ''=='' ''# pinned'' = 0" by code_simp
  note inst = merge_existing_configs_requirements [of stub_env]
  from inst g have "merge_existing_configs stub_env [(''requirements.txt'', ?L)] ''python'' =
      (if \<exists>l\<in>set ?L. 2 \<le> py_count ''=='' l then Inl ValueError
       else Inr (fold requirement_entry ?L []))"
    by blast
  with a b have m: "merge_existing_configs stub_env [(''requirements.txt'', ?L)] ''python''
      = Inr [(''numpy'', ''1.20.0''), (''requests'', ''2.31.0'')]"
    by simp
  from inst c1 have p1: "\<exists>dep ver. ''numpy==1.20.0'' = dep @ ''=='' @ ver
      \<and> requirement_entry ''numpy==1.20.0'' [] = dict_set [] (strip dep) (strip ver)"
    by blast
  from inst c0 have p0: "requirement_entry ''# pinned'' [] = []" by blast
  from g m c1 p1 c0 p0 show ?thesis by blast
qed

section \<open>The deprecation sweep\<close>

lemma semver_compare_cutoff:
  "\<exists>err. semver_compare ver (PyStr ''2.0'') = Inl err"
proof -
  have "semver_parse ''2.0'' = Inl ValueError" by code_simp
  then show ?thesis
    by (simp add: semver_compare_def split: pyval.splits sum.splits)
qed

lemma is_deprecated_tensorflow:
  "\<exists>err. is_deprecated ''tensorflow'' ver ''python'' = Inl err"
proof -
  have "lstrip_chars ''<'' ''<2.0'' = ''2.0''" by code_simp
  moreover obtain err where "semver_compare ver (PyStr ''2.0'') = Inl err"
    using semver_compare_cutoff by blast
  ultimately show ?thesis
    by (simp add: is_deprecated_def deprecated_def dict_get_default_def)
qed

text \<open>
  Claim C8, evaluated on the code. The cutoff recorded for tensorflow is \<^verbatim>\<open>'<2.0'\<close>; stripped
  of \<^verbatim>\<open><\<close> it is \<^verbatim>\<open>'2.0'\<close>, which is not a semantic version, so the comparison inside
  \<^verbatim>\<open>_is_deprecated\<close> raises for every tensorflow version, \<^verbatim>\<open>'1.9'\<close> included (itself not a
  semantic version either). The exception is not caught: inference of a python
  subdirectory that declares \<^verbatim>\<open>tensorflow==1.9\<close> ends in \<^verbatim>\<open>ValueError\<close>, with no
  Deprecation insight, no upgrade and no Conflict entry.
\<close>

theorem deprecation_sweep_tensorflow_raises:
  "is_deprecated ''tensorflow'' (PyStr ''1.9'') ''python'' = Inl ValueError
   \<and> is_deprecated ''tensorflow'' (PyStr ''1.9.0'') ''python'' = Inl ValueError
   \<and> (\<forall>ver. \<exists>err. is_deprecated ''tensorflow'' ver ''python'' = Inl err)
   \<and> infer_fresh stub_env tensorflow_data = Inl ValueError"
proof (intro conjI allI)
  show "is_deprecated ''tensorflow'' (PyStr ''1.9'') ''python'' = Inl ValueError"
    by code_simp
  show "is_deprecated ''tensorflow'' (PyStr ''1.9.0'') ''python'' = Inl ValueError"
    by code_simp
  show "\<exists>err. is_deprecated ''tensorflow'' ver ''python'' = Inl err" for ver
    by (rule is_deprecated_tensorflow)
  show "infer_fresh stub_env tensorflow_data = Inl ValueError"
    by code_simp
qed

section \<open>The language and layout detector\<close>

text \<open>
  Claim C7, evaluated on the code. The walk visits the top directory under the relative
  path \<^verbatim>\<open>'.'\<close>, so the ecosystems of the files at the top of the repository are recorded
  under the key \<^verbatim>\<open>'.'\<close>; the key \<^verbatim>\<open>'/'\<close>, with which \<open>subdirs\<close> is initialized, keeps the
  empty set. For a repository with \<^verbatim>\<open>app.py\<close> at the top the entry \<^verbatim>\<open>'/'\<close> is empty and the
  python tag is under \<^verbatim>\<open>'.'\<close>.
\<close>

theorem detect_root_is_dot:
  "detect_languages_and_subdirs sample_repo =
     ([(''python'', 1), (''js'', 0), (''java'', 0), (''go'', 0), (''ruby'', 0)],
      [(''/'', []), (''.'', [''python'']), (''docs'', [])])"
  by code_simp

section \<open>Resolving the sentinel\<close>

text \<open>
  Claim C4, evaluated on the code. For a python dependency a failing version source
  leaves \<^verbatim>\<open>'latest'\<close>. For every other ecosystem \<^verbatim>\<open>_get_latest_version\<close> returns \<^verbatim>\<open>None\<close>,
  whatever the version source does: in a js subdirectory that imports \<^verbatim>\<open>react\<close>, the
  dependency inferred at \<^verbatim>\<open>'latest'\<close> ends with the version \<^verbatim>\<open>None\<close>.
\<close>

theorem get_latest_version_other_ecosystem:
  "get_latest_version (e\<lparr>version_source := (\<lambda>dep. None)\<rparr>) dep ''python'' = PyStr ''latest''
   \<and> get_latest_version e dep ''js'' = PyNone
   \<and> infer_fresh react_env react_data =
       Inr \<lparr>deps = [(''react'', PyNone)], hidden = [''react-dom''], conflicts = [],
            insights = [''Inferred react from react with score 0.90''],
            per_subdir =
              [(''web'', \<lparr>s_deps = [(''react'', PyNone)], s_hidden = [''react-dom''],
                          s_insights = [''Inferred react from react with score 0.90'']\<rparr>)]\<rparr>"
proof (intro conjI)
  show "get_latest_version (e\<lparr>version_source := (\<lambda>dep. None)\<rparr>) dep ''python'' = PyStr ''latest''"
    by (simp add: get_latest_version_def)
  show "get_latest_version e dep ''js'' = PyNone"
    by (simp add: get_latest_version_def)
  show "infer_fresh react_env react_data =
       Inr \<lparr>deps = [(''react'', PyNone)], hidden = [''react-dom''], conflicts = [],
            insights = [''Inferred react from react with score 0.90''],
            per_subdir =
              [(''web'', \<lparr>s_deps = [(''react'', PyNone)], s_hidden = [''react-dom''],
                          s_insights = [''Inferred react from react with score 0.90'']\<rparr>)]\<rparr>"
    by code_simp
qed

section \<open>The acceptance threshold\<close>

lemma accept_results_filter:
  "accept_results e imp results (ds, ins) =
     (fold (\<lambda>r m. dict_set m (label_name (fst r)) (label_version (fst r)))
        (filter (\<lambda>r. 7 / 10 < snd r) results) ds,
      ins @ map (inference_insight e imp) (filter (\<lambda>r. 7 / 10 < snd r) results))"
proof (induction results arbitrary: ds ins)
  case Nil
  show ?case by simp
next
  case (Cons r results)
  obtain label score where r: "r = (label, score)" by (cases r)
  show ?case
    unfolding r by (simp add: Cons.IH)
qed

text \<open>
  Claim C5 as stated fails: the test in the code is \<^verbatim>\<open>result['score'] > 0.7\<close>, so a prediction
  whose confidence is exactly the threshold is discarded.
\<close>

theorem accept_results_at_threshold:
  "accept_results stub_env ''numpy'' [(''numpy:1.26.0'', 7 / 10)] ([], []) = ([], [])"
  by code_simp

text \<open>
  Claim C5, amended. A prediction is accepted if and only if its confidence is strictly
  above 0.7: the dependency map receives the accepted predictions, in order (the name
  before the first colon of the label, the version after the last colon, or \<^verbatim>\<open>'latest'\<close>
  when the label has no colon), the insight list receives one insight for each of them,
  and a prediction at or below 0.7 changes neither.
\<close>

theorem accept_results_strictly_above:
  "accept_results e imp results (ds, ins) =
     (fold (\<lambda>r m. dict_set m (label_name (fst r)) (label_version (fst r)))
        (filter (\<lambda>r. 7 / 10 < snd r) results) ds,
      ins @ map (inference_insight e imp) (filter (\<lambda>r. 7 / 10 < snd r) results))"
  by (rule accept_results_filter)

section \<open>Properties of dictionaries\<close>

lemma dict_get_dict_set:
  "dict_get (dict_set d k v) k' = (if k' = k then Some v else dict_get d k')"
  by (induction d) auto

lemma dict_get_None_iff: "dict_get d k = None \<longleftrightarrow> k \<notin> fst ` set d"
  by (induction d k rule: dict_get.induct) auto

lemma keys_dict_set:
  "map fst (dict_set d k v) = (if k \<in> fst ` set d then map fst d else map fst d @ [k])"
  by (induction d k v rule: dict_set.induct) auto

lemma distinct_dict_set: "distinct (map fst d) \<Longrightarrow> distinct (map fst (dict_set d k v))"
  by (simp add: keys_dict_set)

section \<open>Reconciling declared and inferred versions\<close>

text \<open>
  Claim C1, evaluated on the code. \<^verbatim>\<open>_resolve_version_conflict\<close> starts by evaluating
  \<^verbatim>\<open>semver.valid(ver1)\<close>, which raises \<^verbatim>\<open>AttributeError\<close>; the handler of the function catches
  \<^verbatim>\<open>ValueError\<close> only, so every call raises, for all versions. The reconciliation of a
  dependency that is both declared and inferred therefore raises, and so does inference
  of a python subdirectory that declares \<^verbatim>\<open>numpy==1.20.0\<close> and for whose import the
  classifier predicts \<^verbatim>\<open>numpy:1.24.0\<close>: no version is resolved and no Conflict entry is
  appended.
\<close>

theorem resolve_version_conflict_raises:
  "resolve_version_conflict ver1 ver2 = Inl AttributeError
   \<and> merge_declared [(''numpy'', ''1.20.0'')] ([(''numpy'', ''1.24.0'')], []) = Inl AttributeError
   \<and> infer_fresh stub_env conflict_data = Inl AttributeError"
proof (intro conjI)
  show r: "resolve_version_conflict ver1 ver2 = Inl AttributeError" for ver1 ver2
    by (simp add: resolve_version_conflict_def semver_valid_def)
  then show "merge_declared [(''numpy'', ''1.20.0'')] ([(''numpy'', ''1.24.0'')], [])
      = Inl AttributeError"
    by simp
  show "infer_fresh stub_env conflict_data = Inl AttributeError"
    by code_simp
qed

section \<open>The logs of an inference\<close>

lemma classify_imports_logs:
  "classify_imports e lang imps (ds, hid, ins) = Inr (ds', hid', ins') \<Longrightarrow>
   hid' = hid @ transitive_hints lang imps \<and> ins' = ins @ classification_insights e lang imps"
proof (induction imps arbitrary: ds hid ins)
  case Nil
  then show ?case by (simp add: transitive_hints_def classification_insights_def)
next
  case (Cons imp imps)
  from Cons.prems obtain rs where rs: "pipeline e (prompt imp lang) = Inr rs"
    by (auto split: sum.splits)
  obtain ds1 ins1 where acc: "accept_results e imp rs (ds, ins) = (ds1, ins1)"
    by (cases "accept_results e imp rs (ds, ins)")
  then have ins1: "ins1 = ins @ map (inference_insight e imp) (filter (\<lambda>r. 7 / 10 < snd r) rs)"
    by (simp add: accept_results_filter)
  from Cons.prems rs acc
  have "classify_imports e lang imps (ds1, hid @ infer_hidden imp lang, ins1) = Inr (ds', hid', ins')"
    by simp
  from Cons.IH [OF this] ins1 rs show ?case
    by (simp add: transitive_hints_def classification_insights_def predictions_def)
qed

lemma deprecation_sweep_appends:
  "deprecation_sweep e lang items (ds, ins, cfl) = Inr (ds', ins', cfl') \<Longrightarrow> prefix ins ins'"
proof (induction items arbitrary: ds ins cfl)
  case Nil
  then show ?case by simp
next
  case (Cons it items)
  obtain dep ver where it: "it = (dep, ver)" by (cases it)
  from Cons.prems it obtain b where b: "is_deprecated dep ver lang = Inr b"
    by (auto split: sum.splits)
  show ?case
  proof (cases b)
    case False
    with Cons.prems it b Cons.IH show ?thesis by simp
  next
    case True
    with Cons.prems it b obtain ds1 cfl1 where
      "deprecation_sweep e lang items (ds1, ins @ [deprecation_insight dep ver], cfl1)
         = Inr (ds', ins', cfl')"
      by (auto simp: Let_def split: sum.splits if_splits)
    from Cons.IH [OF this] show ?thesis
      by (rule append_prefixD)
  qed
qed

lemma dict_set_append: "k \<notin> fst ` set d \<Longrightarrow> dict_set d k v = d @ [(k, v)]"
  by (induction d k v rule: dict_set.induct) auto

lemma infer_subdir_logs:
  assumes "infer_subdir e d subdir p acc = Inr acc'"
  shows "\<exists>lang s. subdir_lang e d subdir = Inr lang
           \<and> per_subdir acc' = dict_set (per_subdir acc) subdir s
           \<and> hidden acc' = hidden acc @ s_hidden s
           \<and> insights acc' = insights acc @ s_insights s
           \<and> s_hidden s = transitive_hints lang (p_imports p)
           \<and> prefix (classification_insights e lang (p_imports p)) (s_insights s)"
proof -
  from assms obtain lang where lang: "subdir_lang e d subdir = Inr lang"
    by (auto simp: infer_subdir_def split: sum.splits)
  from assms lang obtain existing where
    ex: "merge_existing_configs e (dict_get_default (configs d) subdir []) lang = Inr existing"
    by (auto simp: infer_subdir_def split: sum.splits)
  from assms lang ex obtain ds1 hid ins1 where
    cl: "classify_imports e lang (p_imports p) ([], [], []) = Inr (ds1, hid, ins1)"
    by (auto simp: infer_subdir_def split: sum.splits)
  from assms lang ex cl obtain ds2 cfl2 where
    mg: "merge_declared existing (ds1, conflicts acc) = Inr (ds2, cfl2)"
    by (auto simp: infer_subdir_def split: sum.splits)
  from assms lang ex cl mg obtain ds3 ins3 cfl3 where
    sw: "deprecation_sweep e lang (fetch_latest e lang ds2) (fetch_latest e lang ds2, ins1, cfl2)
           = Inr (ds3, ins3, cfl3)"
    by (auto simp: infer_subdir_def split: sum.splits)
  from assms lang ex cl mg sw have acc': "acc' =
      \<lparr>deps = dict_update (deps acc) ds3, hidden = hidden acc @ hid, conflicts = cfl3,
       insights = insights acc @ ins3,
       per_subdir = dict_set (per_subdir acc) subdir
          \<lparr>s_deps = ds3, s_hidden = hid, s_insights = ins3\<rparr>\<rparr>"
    by (simp add: infer_subdir_def)
  from classify_imports_logs [OF cl] have hid: "hid = transitive_hints lang (p_imports p)"
    and ins1: "ins1 = classification_insights e lang (p_imports p)"
    by simp_all
  from deprecation_sweep_appends [OF sw] have "prefix ins1 ins3" .
  with lang acc' hid ins1 show ?thesis
    by (intro exI [of _ lang] exI [of _ "\<lparr>s_deps = ds3, s_hidden = hid, s_insights = ins3\<rparr>"]) simp
qed

lemma logs_in_orderI:
  assumes "subdir_lang e d subdir = Inr lang"
    and "s_hidden s = transitive_hints lang (p_imports p)"
    and "prefix (classification_insights e lang (p_imports p)) (s_insights s)"
  shows "logs_in_order e d (subdir, p) (subdir, s)"
  using assms by (simp add: logs_in_order_def)

lemma infer_loop_logs:
  "infer_loop e d ps acc = Inr r \<Longrightarrow> distinct (map fst ps) \<Longrightarrow>
   fst ` set ps \<inter> fst ` set (per_subdir acc) = {} \<Longrightarrow>
   \<exists>ks. per_subdir r = per_subdir acc @ ks
      \<and> list_all2 (logs_in_order e d) ps ks
      \<and> insights r = insights acc @ concat (map (\<lambda>k. s_insights (snd k)) ks)
      \<and> hidden r = hidden acc @ concat (map (\<lambda>k. s_hidden (snd k)) ks)"
proof (induction ps arbitrary: acc)
  case Nil
  then show ?case by simp
next
  case (Cons sp ps)
  obtain subdir p where sp: "sp = (subdir, p)" by (cases sp)
  from Cons.prems(1) sp obtain acc' where
    step: "infer_subdir e d subdir p acc = Inr acc'" and rest: "infer_loop e d ps acc' = Inr r"
    by (auto split: sum.splits)
  from infer_subdir_logs [OF step] obtain lang s where
    lang: "subdir_lang e d subdir = Inr lang"
    and ps': "per_subdir acc' = dict_set (per_subdir acc) subdir s"
    and hid: "hidden acc' = hidden acc @ s_hidden s"
    and ins: "insights acc' = insights acc @ s_insights s"
    and sh: "s_hidden s = transitive_hints lang (p_imports p)"
    and si: "prefix (classification_insights e lang (p_imports p)) (s_insights s)"
    by blast
  from Cons.prems(3) sp have "subdir \<notin> fst ` set (per_subdir acc)" by auto
  with ps' have app: "per_subdir acc' = per_subdir acc @ [(subdir, s)]"
    by (simp add: dict_set_append)
  from Cons.prems(2) sp have d: "distinct (map fst ps)" and fresh: "subdir \<notin> fst ` set ps"
    by auto
  from Cons.prems(3) fresh app have disj: "fst ` set ps \<inter> fst ` set (per_subdir acc') = {}"
    by auto
  from Cons.IH [OF rest d disj] obtain ks where
    ks: "per_subdir r = per_subdir acc' @ ks" "list_all2 (logs_in_order e d) ps ks"
      "insights r = insights acc' @ concat (map (\<lambda>k. s_insights (snd k)) ks)"
      "hidden r = hidden acc' @ concat (map (\<lambda>k. s_hidden (snd k)) ks)"
    by blast
  have here: "logs_in_order e d (subdir, p) (subdir, s)"
    using lang sh si by (rule logs_in_orderI)
  with ks app hid ins sp show ?case
    by (intro exI [of _ "(subdir, s) # ks"]) simp
qed

lemma infer_fresh_logs:
  assumes "infer_fresh e d = Inr r" and "distinct (map fst (parsed d))"
  shows "list_all2 (logs_in_order e d) (parsed d) (per_subdir r)
    \<and> insights r = concat (map (\<lambda>k. s_insights (snd k)) (per_subdir r))
    \<and> hidden r = concat (map (\<lambda>k. s_hidden (snd k)) (per_subdir r))"
  using infer_loop_logs [of e d "parsed d" empty_inferred r] assms
  by (auto simp: infer_fresh_def empty_inferred_def)

section \<open>Runs with the same answers\<close>









section \<open>Transitive expansion\<close>










section \<open>Determinism and the order of the logs\<close>




section \<open>One entry per analysed subdirectory\<close>

lemma distinct_setdefault: "distinct (map fst d) \<Longrightarrow> distinct (map fst (setdefault d k v))"
  by (simp add: setdefault_def distinct_dict_set split: option.splits)

lemma distinct_tag_files:
  "tag_files rel files (lg, sd) = (lg', sd') \<Longrightarrow> distinct (map fst sd) \<Longrightarrow>
   distinct (map fst sd')"
proof (induction files arbitrary: lg sd)
  case Nil
  then show ?case by simp
next
  case (Cons f files)
  show ?case
  proof (cases "file_lang f")
    case None
    with Cons show ?thesis by simp
  next
    case (Some l)
    with Cons.prems(1)
    have "tag_files rel files
            (dict_set lg l (dict_get_default lg l 0 + 1),
             dict_set sd rel (set_add (dict_get_default sd rel []) l)) = (lg', sd')"
      by simp
    from Cons.IH [OF this] Cons.prems(2) show ?thesis
      by (simp add: distinct_dict_set)
  qed
qed

lemma distinct_detect_walk:
  "detect_walk w (lg, sd) = (lg', sd') \<Longrightarrow> distinct (map fst sd) \<Longrightarrow> distinct (map fst sd')"
proof (induction w arbitrary: lg sd)
  case Nil
  then show ?case by simp
next
  case (Cons x w)
  obtain p files where x: "x = (p, files)" by (cases x)
  obtain lg1 sd1 where t: "tag_files (rel_root p) files (lg, setdefault sd (rel_root p) []) = (lg1, sd1)"
    by (cases "tag_files (rel_root p) files (lg, setdefault sd (rel_root p) [])")
  from distinct_tag_files [OF t] Cons.prems(2) have "distinct (map fst sd1)"
    by (simp add: distinct_setdefault)
  moreover from Cons.prems(1) x t have "detect_walk w (lg1, sd1) = (lg', sd')" by simp
  ultimately show ?case using Cons.IH by blast
qed

lemma distinct_detect:
  "detect_languages_and_subdirs tree = (lg, sd) \<Longrightarrow> distinct (map fst sd)"
  unfolding detect_languages_and_subdirs_def
  by (erule distinct_detect_walk) simp

lemma dict_set_key_mem: "k \<in> fst ` set (dict_set d k v)"
  by (induction d k v rule: dict_set.induct) auto

lemma analyze_langs_keys:
  "analyze_langs e subdir ls (ps0, cs0) = Inr (ps, cs) \<Longrightarrow>
   map fst ps = (if ls = [] \<or> subdir \<in> fst ` set ps0 then map fst ps0 else map fst ps0 @ [subdir])"
proof (induction ls arbitrary: ps0 cs0)
  case Nil
  then show ?case by simp
next
  case (Cons l ls)
  from Cons.prems obtain p c where
    rec: "analyze_langs e subdir ls (dict_set ps0 subdir p, dict_set cs0 subdir c) = Inr (ps, cs)"
    by (auto split: sum.splits)
  have mem: "subdir \<in> fst ` set (dict_set ps0 subdir p)"
    by (rule dict_set_key_mem)
  from Cons.IH [OF rec] mem have "map fst ps = map fst (dict_set ps0 subdir p)" by simp
  then show ?case by (simp add: keys_dict_set)
qed

lemma analyze_subdirs_keys:
  "analyze_subdirs e sd (ps0, cs0) = Inr (ps, cs) \<Longrightarrow> distinct (map fst sd) \<Longrightarrow>
   fst ` set sd \<inter> fst ` set ps0 = {} \<Longrightarrow>
   map fst ps = map fst ps0 @ map fst (filter (\<lambda>st. snd st \<noteq> []) sd)"
proof (induction sd arbitrary: ps0 cs0)
  case Nil
  then show ?case by simp
next
  case (Cons st sd)
  obtain subdir ls where st: "st = (subdir, ls)" by (cases st)
  from Cons.prems(1) st obtain ps1 cs1 where
    step: "analyze_langs e subdir (iterate e ls) (ps0, cs0) = Inr (ps1, cs1)"
    and rest: "analyze_subdirs e sd (ps1, cs1) = Inr (ps, cs)"
    by (auto split: sum.splits)
  from Cons.prems(3) st have fresh: "subdir \<notin> fst ` set ps0" by auto
  have "length (iterate e ls) = length ls" by (simp add: iterate_def)
  then have empty: "iterate e ls = [] \<longleftrightarrow> ls = []" by (metis length_0_conv)
  from analyze_langs_keys [OF step] fresh empty
  have k1: "map fst ps1 = (if ls = [] then map fst ps0 else map fst ps0 @ [subdir])" by simp
  from Cons.prems(2) st have d: "distinct (map fst sd)" and ns: "subdir \<notin> fst ` set sd" by auto
  have "fst ` set ps1 = set (map fst ps1)" by simp
  with k1 have "fst ` set ps1 \<subseteq> fst ` set ps0 \<union> {subdir}" by (auto split: if_splits)
  moreover from Cons.prems(3) have "fst ` set sd \<inter> fst ` set ps0 = {}" by auto
  ultimately have disj: "fst ` set sd \<inter> fst ` set ps1 = {}" using ns by blast
  from Cons.IH [OF rest d disj] k1 st show ?case by simp
qed

lemma scan_once_fresh:
  "scan_once e False cf repo_input forced_lang rpath tree = (Inr d, cf') \<Longrightarrow>
   \<exists>lg cs. detect_languages_and_subdirs tree = (lg, subdirs d)
      \<and> analyze_subdirs e (subdirs d) ([], []) = Inr (parsed d, cs)"
  by (auto simp: scan_once_def split: prod.splits sum.splits)

lemma scan_once_no_cache_file:
  "snd (scan_once e False cf repo_input forced_lang rpath tree) = cf"
  by (auto simp: scan_once_def split: prod.splits sum.splits)

lemma scan_no_cache:
  assumes "scan e False cf repo_input forced_lang rpath tree = (Inr d, cf')"
  shows "scan_once e False cf repo_input forced_lang rpath tree = (Inr d, cf)"
proof -
  obtain res where once: "scan_once e False cf repo_input forced_lang rpath tree = (res, cf)"
    using scan_once_no_cache_file [of e cf repo_input forced_lang rpath tree]
    by (cases "scan_once e False cf repo_input forced_lang rpath tree") auto
  show ?thesis
  proof (cases res)
    case (Inr d')
    with assms once show ?thesis by (simp add: scan_def)
  next
    case (Inl err)
    with assms once show ?thesis by (simp add: scan_def)
  qed
qed

lemma scan_parsed_keys:
  assumes "scan e False cf repo_input forced_lang rpath tree = (Inr d, cf')"
  shows "map fst (parsed d) = map fst (filter (\<lambda>st. snd st \<noteq> []) (subdirs d))"
    and "distinct (map fst (subdirs d))"
proof -
  from scan_once_fresh [OF scan_no_cache [OF assms]] obtain lg cs where
    det: "detect_languages_and_subdirs tree = (lg, subdirs d)"
    and an: "analyze_subdirs e (subdirs d) ([], []) = Inr (parsed d, cs)"
    by blast
  from distinct_detect [OF det] show d: "distinct (map fst (subdirs d))" .
  from analyze_subdirs_keys [OF an d]
  show "map fst (parsed d) = map fst (filter (\<lambda>st. snd st \<noteq> []) (subdirs d))" by simp
qed

lemma logs_in_order_keys: "list_all2 (logs_in_order e d) ps ks \<Longrightarrow> map fst ks = map fst ps"
  by (induction rule: list_all2_induct) (auto simp: logs_in_order_def)

lemma infer_fresh_keys:
  assumes "infer_fresh e d = Inr r" and "distinct (map fst (parsed d))"
  shows "map fst (per_subdir r) = map fst (parsed d)"
  using infer_fresh_logs [OF assms] by (auto dest: logs_in_order_keys)

text \<open>
  Claim C2 as stated fails: the scanner analyses a subdirectory once for every ecosystem
  of its tag set, so a subdirectory whose tag set is empty gets no parse result, and
  inference, which runs over the parse results, gives it no entry. In the sample
  repository the subdirectory \<^verbatim>\<open>docs\<close> is in the snapshot with an empty tag set and is absent
  from the per-subdirectory map.
\<close>

theorem untagged_subdir_has_no_entry:
  "scan stub_env False NoFile ''/repo'' None ''/repo'' sample_repo = (Inr sample_data, NoFile)
   \<and> infer_fresh stub_env sample_data = Inr sample_result
   \<and> dict_get (subdirs sample_data) ''docs'' = Some []
   \<and> dict_get (per_subdir sample_result) ''docs'' = None"
  by code_simp

text \<open>
  Claim C2, amended. For a snapshot that the scanner computed (caching off) and an
  inference on it that returns a result, the per-subdirectory map has exactly one entry
  for every subdirectory of the snapshot whose ecosystem tag set is not empty, in the
  order of the snapshot, and no entry for any other subdirectory.
\<close>

theorem per_subdir_of_tagged_subdirs:
  assumes "scan e False cf repo_input forced_lang rpath tree = (Inr d, cf')"
    and "infer_fresh e d = Inr r"
  shows "map fst (per_subdir r) = map fst (filter (\<lambda>st. snd st \<noteq> []) (subdirs d))
    \<and> distinct (map fst (per_subdir r))"
proof -
  note k = scan_parsed_keys [OF assms(1)]
  from k(2) have df: "distinct (map fst (filter (\<lambda>st. snd st \<noteq> []) (subdirs d)))"
    by (rule distinct_map_filter)
  with k(1) have dp: "distinct (map fst (parsed d))" by simp
  from infer_fresh_keys [OF assms(2) dp] k(1) df show ?thesis by simp
qed

theorem per_subdir_of_tagged_subdirs_witness:
  "scan stub_env False NoFile ''/repo'' None ''/repo'' sample_repo = (Inr sample_data, NoFile)
   \<and> infer_fresh stub_env sample_data = Inr sample_result
   \<and> map fst (per_subdir sample_result)
       = map fst (filter (\<lambda>st. snd st \<noteq> []) (subdirs sample_data))
   \<and> distinct (map fst (per_subdir sample_result))"
proof -
  have sc: "scan stub_env False NoFile ''/repo'' None ''/repo'' sample_repo
      = (Inr sample_data, NoFile)"
    by code_simp
  have run: "infer_fresh stub_env sample_data = Inr sample_result" by code_simp
  from per_subdir_of_tagged_subdirs [OF sc run] sc run show ?thesis by blast
qed

section \<open>The caches\<close>




end
